theory Spec2Isabelle
  imports Main
begin

section \<open>The fit loop of pytorch\_lightning: data model\<close>

text \<open>
  A shallow embedding of \<^verbatim>\<open>pytorch_lightning/loops/fit_loop.py\<close>. Python's integers are
  \<open>int\<close>. Objects are records, mutation is explicit state passing, an exception is a value
  of \<open>error\<close>, and every call that leaves the file (hooks, the logger connector, the progress
  tracker, warnings and log records) is appended to a trace together with the state the
  callee could observe at that moment.
\<close>

subsection \<open>Progress tracking\<close>

text \<open>\<^verbatim>\<open>epoch_progress.current\<close>: the four counters the loop reads and writes.\<close>

record tracker =
  ready :: int
  started :: int
  processed :: int
  completed :: int

record progress =
  current :: tracker

subsection \<open>The epoch loop, the trainer and the process environment\<close>

text \<open>
  Of \<^verbatim>\<open>TrainingEpochLoop\<close> the fit loop touches \<^verbatim>\<open>global_step\<close>, \<^verbatim>\<open>min_steps\<close>,
  \<^verbatim>\<open>max_steps\<close> and \<^verbatim>\<open>_batches_that_stepped\<close>; \<^verbatim>\<open>min_steps\<close> is an \<^verbatim>\<open>Optional[int]\<close>.
\<close>

record epoch_loop_state =
  el_global_step :: int
  el_min_steps :: "int option"
  el_max_steps :: int
  el_batches_that_stepped :: int

text \<open>\<^verbatim>\<open>trainer.num_training_batches\<close> is an integer or \<^verbatim>\<open>float("inf")\<close>.\<close>

datatype num_batches = Batches int | Inf

datatype accelerator = CPUAccelerator | GPUAccelerator | TPUAccelerator | IPUAccelerator

text \<open>\<^verbatim>\<open>isinstance(trainer.accelerator, GPUAccelerator)\<close>\<close>

fun isinstance_GPUAccelerator :: "accelerator \<Rightarrow> bool" where
  "isinstance_GPUAccelerator GPUAccelerator = True"
| "isinstance_GPUAccelerator _ = False"

text \<open>
  Of a data loader the loop asks whether its sampler has a callable \<^verbatim>\<open>set_epoch\<close>.
\<close>

record dataloader =
  sampler_has_set_epoch :: bool

text \<open>
  The trainer fields the loop reads. \<open>training_step_has_dataloader_iter\<close> is the answer of
  \<^verbatim>\<open>is_param_in_hook_signature(training_step_fx, "dataloader_iter", explicit=True)\<close>, a
  reflective query on the user's model that is taken as given;
  \<open>should_reload_train_dl\<close> is \<^verbatim>\<open>trainer._data_connector._should_reload_train_dl\<close>.
\<close>

record trainer_state =
  should_stop :: bool
  num_training_batches :: num_batches
  training :: bool
  validating :: bool
  accelerator :: accelerator
  training_step_has_dataloader_iter :: bool
  train_dataloader :: "dataloader option"
  should_reload_train_dl :: bool

datatype fetcher_cls = DataFetcher | DataLoaderIterDataFetcher | InterBatchParallelDataFetcher

record fetcher =
  fetcher_kind :: fetcher_cls
  prefetch_batches_arg :: int

subsection \<open>The fit loop and the whole state\<close>

record 'o fit_loop =
  max_epochs :: int
  min_epochs :: int
  epoch_loop :: epoch_loop_state
  epoch_progress :: progress
  is_fresh_start_epoch :: bool
  outputs :: "'o list"
  data_fetcher :: "fetcher option"
  restarting_flag :: bool

text \<open>
  The state a method of the loop runs in: the loop object, the trainer it is attached to and
  the process environment read by \<^verbatim>\<open>os.getenv\<close>.
\<close>

record 'o state =
  loop :: "'o fit_loop"
  trainer :: trainer_state
  environ :: "string \<rightharpoonup> string"

definition os_getenv :: "(string \<rightharpoonup> string) \<Rightarrow> string \<Rightarrow> string \<Rightarrow> string" where
  "os_getenv env k dflt = (case env k of None \<Rightarrow> dflt | Some v \<Rightarrow> v)"

subsection \<open>Errors and the trace of outgoing calls\<close>

datatype misconfiguration =
    MaxEpochsInvalid int
  | MaxStepsInvalid int
  | TrainingEpochEndReturnsValue
  | InterBatchParallelismNeedsGPU

datatype error =
    MisconfigurationException misconfiguration
  | RuntimeError string
  | AssertionError

datatype hook_target = Callbacks | LightningModule | Strategy

text \<open>
  The calls, warnings and log records of the file. \<open>LogInfoMinimumsNotMet\<close> is the record
  "Trainer was signaled to stop but required minimum epochs (..) or minimum steps (..) has
  not been met. Training will continue...", with the two numbers it prints.
\<close>

datatype event =
    CallHook hook_target string
  | LoggerConnector string
  | ProgressCall string
  | EpochLoopCall string
  | TrainerCall string
  | SamplerSetEpoch int
  | DataFetcherCall string
  | ResultsTo
  | LogInfoMinimumsNotMet int "int option"
  | LogDetail string
  | RankZeroWarn string
  | RankZeroDeprecation string

type_synonym 'o trace = "(event \<times> 'o state) list"

type_synonym 'o config = "'o state \<times> 'o trace"

type_synonym 'o stmt = "'o config \<Rightarrow> error option \<times> 'o config"

text \<open>A call that leaves the file: recorded with the state at the moment of the call.\<close>

definition call :: "event \<Rightarrow> 'o stmt" where
  "call e c = (None, (fst c, snd c @ [(e, fst c)]))"

text \<open>An assignment to a field.\<close>

definition assign :: "('o state \<Rightarrow> 'o state) \<Rightarrow> 'o stmt" where
  "assign f c = (None, (f (fst c), snd c))"

definition raise :: "error \<Rightarrow> 'o stmt" where
  "raise e c = (Some e, c)"

definition pass :: "'o stmt" where
  "pass c = (None, c)"

text \<open>Statements in sequence; an exception ends the sequence.\<close>

fun exec :: "'o stmt list \<Rightarrow> 'o stmt" where
  "exec [] c = (None, c)"
| "exec (m # ms) c = (case m c of (None, c') \<Rightarrow> exec ms c' | (Some e, c') \<Rightarrow> (Some e, c'))"

definition run_stmt :: "'o stmt \<Rightarrow> 'o state \<Rightarrow> error option \<times> 'o state \<times> 'o trace" where
  "run_stmt m s = m (s, [])"

text \<open>The state each call of a given event observed, in the order of the calls.\<close>

definition observed_at :: "event \<Rightarrow> 'o trace \<Rightarrow> 'o state list" where
  "observed_at e tr = map snd (filter (\<lambda>p. fst p = e) tr)"

section \<open>The operations\<close>

subsection \<open>Limits\<close>

text \<open>
  Modelled from the spec: \<^verbatim>\<open>_is_max_limit_reached\<close> is imported from
  \<^verbatim>\<open>pytorch_lightning.loops.utilities\<close>, which is not among the sources. Section 4.3 of
  the specification gives it as "maximum is not -1 and current is at least maximum".
\<close>

definition is_max_limit_reached :: "int \<Rightarrow> int \<Rightarrow> bool" where
  "is_max_limit_reached cur maximum = (maximum \<noteq> - 1 \<and> cur \<ge> maximum)"

text \<open>The properties \<^verbatim>\<open>min_steps\<close> and \<^verbatim>\<open>max_steps\<close> forward to the epoch loop.\<close>

definition min_steps :: "'o state \<Rightarrow> int option" where
  "min_steps s = el_min_steps (epoch_loop (loop s))"

definition max_steps :: "'o state \<Rightarrow> int" where
  "max_steps s = el_max_steps (epoch_loop (loop s))"

definition set_el_max_steps :: "int \<Rightarrow> 'o state \<Rightarrow> 'o state" where
  "set_el_max_steps v s =
     s\<lparr>loop := (loop s)\<lparr>epoch_loop := (epoch_loop (loop s))\<lparr>el_max_steps := v\<rparr>\<rparr>\<rparr>"

text \<open>
  The setter of \<^verbatim>\<open>max_steps\<close>; its argument is an \<^verbatim>\<open>Optional[int]\<close> at run time, since the
  first branch tests for \<^verbatim>\<open>None\<close>.
\<close>

definition max_steps_setter :: "int option \<Rightarrow> 'o stmt" where
  "max_steps_setter v =
     (case v of
        None \<Rightarrow> exec [call (RankZeroDeprecation ''Setting `max_steps = None` is deprecated in v1.5 and will no longer be supported in v1.7. Use `max_steps = -1` instead.''),
                      assign (set_el_max_steps (- 1))]
      | Some n \<Rightarrow>
          if n < - 1 then raise (MisconfigurationException (MaxStepsInvalid n))
          else assign (set_el_max_steps n))"

subsection \<open>The stop condition\<close>

text \<open>
  Python's truth value of an integer. \<^verbatim>\<open>None\<close> is false as well, which is the first case
  of \<open>met_min_steps\<close>.
\<close>

definition truthy_int :: "int \<Rightarrow> bool" where
  "truthy_int n = (n \<noteq> 0)"

definition met_min_epochs :: "'o state \<Rightarrow> bool" where
  "met_min_epochs s =
     (if truthy_int (min_epochs (loop s))
      then processed (current (epoch_progress (loop s))) \<ge> min_epochs (loop s)
      else True)"

definition met_min_steps :: "'o state \<Rightarrow> bool" where
  "met_min_steps s =
     (case min_steps s of
        None \<Rightarrow> True
      | Some m \<Rightarrow> if truthy_int m then el_global_step (epoch_loop (loop s)) \<ge> m else True)"

definition set_should_stop :: "bool \<Rightarrow> 'o state \<Rightarrow> 'o state" where
  "set_should_stop b s = s\<lparr>trainer := (trainer s)\<lparr>should_stop := b\<rparr>\<rparr>"

text \<open>
  The property \<^verbatim>\<open>done\<close> (the name is reserved in Isabelle, hence the suffix). It is not
  pure: it writes \<^verbatim>\<open>trainer.should_stop\<close> and may log. The result is the returned
  boolean, the state after the call and the records logged. \<open>early\<close> is the local
  \<^verbatim>\<open>should_stop\<close> together with what the branch logged.
\<close>

definition done_prop :: "'o state \<Rightarrow> bool \<times> 'o state \<times> 'o trace" where
  "done_prop s =
     (let stop_steps = is_max_limit_reached (el_global_step (epoch_loop (loop s))) (max_steps s);
          stop_epochs = is_max_limit_reached (processed (current (epoch_progress (loop s))))
                          (max_epochs (loop s));
          early = (if should_stop (trainer s)
                   then (if met_min_epochs s \<and> met_min_steps s then (True, [])
                         else (False, [(LogInfoMinimumsNotMet (min_epochs (loop s)) (min_steps s), s)]))
                   else (False, []));
          s' = set_should_stop (fst early) s
      in (stop_steps \<or> fst early \<or> stop_epochs \<or> num_training_batches (trainer s') = Batches 0,
          s', snd early))"

subsection \<open>Construction\<close>

text \<open>
  \<^verbatim>\<open>FitLoop.__init__\<close>. The freshly built \<^verbatim>\<open>TrainingEpochLoop()\<close> is a parameter, its
  constructor being outside the sources.

  Modelled from the spec: \<^verbatim>\<open>Progress()\<close> and the base constructor \<^verbatim>\<open>Loop.__init__\<close> are
  outside the sources. By section 3 a progress counter is created with all fields at 0,
  and \<open>restarting\<close> says that the controller resumed from a checkpoint, which a new one
  has not.
\<close>

definition new_progress :: progress where
  "new_progress = \<lparr>current = \<lparr>ready = 0, started = 0, processed = 0, completed = 0\<rparr>\<rparr>"

definition init_fit_loop :: "epoch_loop_state \<Rightarrow> int \<Rightarrow> int \<Rightarrow> error + 'o fit_loop" where
  "init_fit_loop new_epoch_loop min_epochs_arg max_epochs_arg =
     (if max_epochs_arg < - 1
      then Inl (MisconfigurationException (MaxEpochsInvalid max_epochs_arg))
      else Inr \<lparr>max_epochs = max_epochs_arg,
                min_epochs = min_epochs_arg,
                epoch_loop = new_epoch_loop,
                epoch_progress = new_progress,
                is_fresh_start_epoch = True,
                outputs = [],
                data_fetcher = None,
                restarting_flag = False\<rparr>)"

subsection \<open>Restarting\<close>

definition map_current :: "(tracker \<Rightarrow> tracker) \<Rightarrow> 'o state \<Rightarrow> 'o state" where
  "map_current f s =
     s\<lparr>loop := (loop s)\<lparr>epoch_progress :=
          (epoch_progress (loop s))\<lparr>current := f (current (epoch_progress (loop s)))\<rparr>\<rparr>\<rparr>"

text \<open>
  Modelled from the spec: the parent setter \<^verbatim>\<open>Loop.restarting.fset\<close> is outside the
  sources. By section 3 the flag is a field of the run state; the parent setter stores it.
\<close>

definition Loop_restarting_fset :: "bool \<Rightarrow> 'o state \<Rightarrow> 'o state" where
  "Loop_restarting_fset b s = s\<lparr>loop := (loop s)\<lparr>restarting_flag := b\<rparr>\<rparr>"

text \<open>The setter of \<^verbatim>\<open>restarting\<close>; \<^verbatim>\<open>any\<close> over the tuple is \<open>list_ex\<close>.\<close>

definition restarting_setter :: "bool \<Rightarrow> 'o state \<Rightarrow> 'o state" where
  "restarting_setter restarting s =
     (let cur = current (epoch_progress (loop s));
          values = [ready cur, started cur, processed cur];
          finished_before_on_train_end = list_ex (\<lambda>v. v \<noteq> completed cur) values;
          s1 = (if finished_before_on_train_end
                then map_current (\<lambda>t. t\<lparr>completed := processed t\<rparr>) s
                else s)
      in Loop_restarting_fset (restarting \<and> finished_before_on_train_end) s1)"

subsection \<open>Choosing the data fetcher\<close>

definition inter_batch_parallelism :: "'o state \<Rightarrow> bool" where
  "inter_batch_parallelism s = (os_getenv (environ s) ''PL_INTER_BATCH_PARALLELISM'' ''0'' = ''1'')"

definition prefetch_batches :: "'o state \<Rightarrow> int" where
  "prefetch_batches s =
     (let is_unsized = (num_training_batches (trainer s) = Inf)
      in if is_unsized \<or> inter_batch_parallelism s then 1 else 0)"

text \<open>\<^verbatim>\<open>_select_data_fetcher\<close>: the class chosen, or the exception; the warning goes to the trace.\<close>

definition select_data_fetcher :: "'o config \<Rightarrow> (error + fetcher_cls) \<times> 'o config" where
  "select_data_fetcher c =
     (if training_step_has_dataloader_iter (trainer (fst c))
      then (Inr DataLoaderIterDataFetcher,
            snd (call (RankZeroWarn ''Found `dataloader_iter` argument in the `training_step`. Note that the support for this signature is experimental and the behavior is subject to change.'') c))
      else if inter_batch_parallelism (fst c)
      then (if \<not> isinstance_GPUAccelerator (accelerator (trainer (fst c)))
            then (Inl (MisconfigurationException InterBatchParallelismNeedsGPU), c)
            else (Inr InterBatchParallelDataFetcher, c))
      else (Inr DataFetcher, c))"

subsection \<open>Run start and run end\<close>

text \<open>
  The property \<^verbatim>\<open>_results\<close> raises outside training and validation; \<^verbatim>\<open>.to(device)\<close> is a
  call on the collection it returns.
\<close>

definition results_to :: "'o stmt" where
  "results_to c =
     (if training (trainer (fst c)) then call ResultsTo c
      else if validating (trainer (fst c)) then call ResultsTo c
      else raise (RuntimeError ''`FitLoop._results` property isn't defined. Accessed outside of scope'') c)"

definition set_data_fetcher :: "fetcher_cls \<Rightarrow> 'o state \<Rightarrow> 'o state" where
  "set_data_fetcher cls s =
     s\<lparr>loop := (loop s)\<lparr>data_fetcher :=
          Some \<lparr>fetcher_kind = cls, prefetch_batches_arg = prefetch_batches s\<rparr>\<rparr>\<rparr>"

text \<open>
  \<^verbatim>\<open>on_run_start\<close>. Resetting the data loaders is what discovers
  \<^verbatim>\<open>num_training_batches\<close>; its effect on the trainer is the parameter \<open>reset_dl\<close>. Hooks are
  opaque: they are recorded, and what they do to the state is outside this file.
\<close>

definition on_run_start :: "(trainer_state \<Rightarrow> trainer_state) \<Rightarrow> 'o stmt" where
  "on_run_start reset_dl =
     exec [call (TrainerCall ''reset_train_val_dataloaders''),
           assign (\<lambda>s. s\<lparr>trainer := reset_dl (trainer s)\<rparr>),
           (\<lambda>c. case select_data_fetcher c of
                   (Inl e, c') \<Rightarrow> raise e c'
                 | (Inr cls, c') \<Rightarrow> assign (set_data_fetcher cls) c'),
           assign (\<lambda>s. s\<lparr>loop := (loop s)\<lparr>is_fresh_start_epoch := True\<rparr>\<rparr>),
           results_to,
           call (CallHook Callbacks ''on_train_start''),
           call (CallHook LightningModule ''on_train_start''),
           call (CallHook Strategy ''on_train_start'')]"

definition on_run_end :: "'o stmt" where
  "on_run_end =
     exec [call (LogDetail ''train run ended''),
           call (CallHook Callbacks ''on_train_end''),
           call (CallHook LightningModule ''on_train_end''),
           call (CallHook Strategy ''on_train_end'')]"

subsection \<open>One epoch\<close>

text \<open>
  Modelled from the spec: the increments of \<^verbatim>\<open>Progress\<close> are outside the sources. By
  section 4.1 each adds exactly 1 to the named field.
\<close>

definition increment_ready :: "'o stmt" where
  "increment_ready =
     exec [call (ProgressCall ''increment_ready''),
           assign (map_current (\<lambda>t. t\<lparr>ready := ready t + 1\<rparr>))]"

definition increment_started :: "'o stmt" where
  "increment_started =
     exec [call (ProgressCall ''increment_started''),
           assign (map_current (\<lambda>t. t\<lparr>started := started t + 1\<rparr>))]"

definition increment_processed :: "'o stmt" where
  "increment_processed =
     exec [call (ProgressCall ''increment_processed''),
           assign (map_current (\<lambda>t. t\<lparr>processed := processed t + 1\<rparr>))]"

definition increment_completed :: "'o stmt" where
  "increment_completed =
     exec [call (ProgressCall ''increment_completed''),
           assign (map_current (\<lambda>t. t\<lparr>completed := completed t + 1\<rparr>))]"

definition set_outputs :: "'o list \<Rightarrow> 'o state \<Rightarrow> 'o state" where
  "set_outputs xs s = s\<lparr>loop := (loop s)\<lparr>outputs := xs\<rparr>\<rparr>"

definition on_advance_start :: "'o stmt" where
  "on_advance_start =
     exec [(\<lambda>c. if \<not> is_fresh_start_epoch (loop (fst c)) \<and> should_reload_train_dl (trainer (fst c))
                then exec [call (LogDetail ''resetting train dataloader''),
                           call (TrainerCall ''reset_train_dataloader'')] c
                else pass c),
           assign (\<lambda>s. s\<lparr>loop := (loop s)\<lparr>is_fresh_start_epoch := False\<rparr>\<rparr>),
           assign (set_outputs []),
           (\<lambda>c. case train_dataloader (trainer (fst c)) of
                   None \<Rightarrow> pass c
                 | Some dl \<Rightarrow>
                     if sampler_has_set_epoch dl
                     then call (SamplerSetEpoch (processed (current (epoch_progress (loop (fst c)))))) c
                     else pass c),
           call (TrainerCall ''accumulation_scheduler.on_train_epoch_start''),
           call (EpochLoopCall ''batch_loop.accumulated_loss.reset''),
           increment_ready,
           call (LoggerConnector ''on_epoch_start''),
           call (CallHook Callbacks ''on_epoch_start''),
           call (CallHook LightningModule ''on_epoch_start''),
           call (CallHook Callbacks ''on_train_epoch_start''),
           call (CallHook LightningModule ''on_train_epoch_start''),
           increment_started]"

text \<open>
  \<^verbatim>\<open>advance\<close>. What \<^verbatim>\<open>epoch_loop.run\<close> returns and what it does to the epoch loop's own
  counters is the parameter \<open>epoch_loop_run\<close>.
\<close>

definition advance :: "(epoch_loop_state \<Rightarrow> 'o list \<times> epoch_loop_state) \<Rightarrow> 'o stmt" where
  "advance epoch_loop_run =
     exec [call (LogDetail ''advancing loop''),
           (\<lambda>c. if train_dataloader (trainer (fst c)) = None then raise AssertionError c else pass c),
           (\<lambda>c. if data_fetcher (loop (fst c)) = None then raise AssertionError c else pass c),
           call (DataFetcherCall ''setup''),
           call (TrainerCall ''profiler.profile''),
           assign (\<lambda>s. s\<lparr>loop := (loop s)\<lparr>outputs := fst (epoch_loop_run (epoch_loop (loop s))),
                                            epoch_loop := snd (epoch_loop_run (epoch_loop (loop s)))\<rparr>\<rparr>)]"

definition add_batches_that_stepped :: "int \<Rightarrow> 'o state \<Rightarrow> 'o state" where
  "add_batches_that_stepped d s =
     s\<lparr>loop := (loop s)\<lparr>epoch_loop := (epoch_loop (loop s))
          \<lparr>el_batches_that_stepped := el_batches_that_stepped (epoch_loop (loop s)) + d\<rparr>\<rparr>\<rparr>"

text \<open>
  What the user's model and the epoch loop answer during \<^verbatim>\<open>on_advance_end\<close>: whether
  \<^verbatim>\<open>training_epoch_end\<close> is overridden, what the hook returns when called (\<open>None\<close> is
  Python's \<^verbatim>\<open>None\<close>), and \<^verbatim>\<open>_num_ready_batches_reached()\<close>.
\<close>

record 'r epoch_end_env =
  training_epoch_end_overridden :: bool
  training_epoch_end_returns :: "'r option"
  num_ready_batches_reached :: bool

definition on_advance_end :: "'r epoch_end_env \<Rightarrow> 'o stmt" where
  "on_advance_end env =
     exec [call (LoggerConnector ''epoch_end_reached''),
           (\<lambda>c. if training_epoch_end_overridden env \<and> outputs (loop (fst c)) \<noteq> []
                then exec [call (EpochLoopCall ''_prepare_outputs_training_epoch_end''),
                           call (CallHook LightningModule ''training_epoch_end''),
                           (\<lambda>c'. if training_epoch_end_returns env \<noteq> None
                                  then raise (MisconfigurationException TrainingEpochEndReturnsValue) c'
                                  else pass c')] c
                else pass c),
           assign (set_outputs []),
           increment_processed,
           call (CallHook Callbacks ''on_train_epoch_end''),
           call (CallHook LightningModule ''on_train_epoch_end''),
           call (CallHook Callbacks ''on_epoch_end''),
           call (CallHook LightningModule ''on_epoch_end''),
           call (LoggerConnector ''on_epoch_end''),
           call (EpochLoopCall ''_num_ready_batches_reached''),
           (\<lambda>c. if num_ready_batches_reached env
                then call (EpochLoopCall ''update_lr_schedulers'') c
                else pass c),
           increment_completed,
           assign (add_batches_that_stepped (- 1)),
           call (LoggerConnector ''update_train_epoch_metrics''),
           assign (add_batches_that_stepped 1),
           call (TrainerCall ''_exit_gracefully_on_signal'')]"

text \<open>
  Modelled from the spec: the body of the loop in \<^verbatim>\<open>Loop.run\<close> is outside the sources. By
  section 4.4 one iteration executes AdvanceStart, Advance and AdvanceEnd in this order.
\<close>

definition loop_iteration ::
  "(epoch_loop_state \<Rightarrow> 'o list \<times> epoch_loop_state) \<Rightarrow> 'r epoch_end_env \<Rightarrow> 'o stmt" where
  "loop_iteration epoch_loop_run env =
     exec [on_advance_start, advance epoch_loop_run, on_advance_end env]"

section \<open>Reading results and traces\<close>

text \<open>The three components of a result.\<close>

definition status_of :: "error option \<times> 'o state \<times> 'o trace \<Rightarrow> error option" where
  "status_of r = fst r"

definition state_of :: "'a \<times> 'o state \<times> 'o trace \<Rightarrow> 'o state" where
  "state_of r = fst (snd r)"

definition trace_of :: "'a \<times> 'o state \<times> 'o trace \<Rightarrow> 'o trace" where
  "trace_of r = snd (snd r)"

text \<open>The receivers of the hook of a given name, in the order in which they were called.\<close>

definition hook_targets :: "string \<Rightarrow> 'o trace \<Rightarrow> hook_target list" where
  "hook_targets name tr =
     concat (map (\<lambda>p. case fst p of
                         CallHook t n \<Rightarrow> if n = name then [t] else []
                       | _ \<Rightarrow> []) tr)"

text \<open>The value of \<^verbatim>\<open>_batches_that_stepped\<close> that each call could observe.\<close>

definition stepped_seen :: "'o trace \<Rightarrow> (event \<times> int) list" where
  "stepped_seen tr = map (\<lambda>p. (fst p, el_batches_that_stepped (epoch_loop (loop (snd p))))) tr"

text \<open>
  The states \<^verbatim>\<open>on_advance_end\<close> goes through when it does not raise: after the outputs are
  freed, after \<^verbatim>\<open>increment_processed\<close> and after \<^verbatim>\<open>increment_completed\<close>.
\<close>

definition epoch_end_cleared :: "'o state \<Rightarrow> 'o state" where
  "epoch_end_cleared s = set_outputs [] s"

definition epoch_end_processed :: "'o state \<Rightarrow> 'o state" where
  "epoch_end_processed s =
     map_current (\<lambda>t. t\<lparr>processed := processed t + 1\<rparr>) (epoch_end_cleared s)"

definition epoch_end_completed :: "'o state \<Rightarrow> 'o state" where
  "epoch_end_completed s =
     map_current (\<lambda>t. t\<lparr>completed := completed t + 1\<rparr>) (epoch_end_processed s)"

section \<open>Concrete runs\<close>

text \<open>
  A run of at least 2 and at most 5 epochs, with no limit on steps, 10 batches per epoch, on
  a CPU. One epoch has finished (all four counters are 1) and a callback has asked the
  trainer to stop.
\<close>

definition example_epoch_loop :: epoch_loop_state where
  "example_epoch_loop =
     \<lparr>el_global_step = 10, el_min_steps = None, el_max_steps = - 1, el_batches_that_stepped = 10\<rparr>"

definition example_trainer :: trainer_state where
  "example_trainer =
     \<lparr>should_stop = True,
      num_training_batches = Batches 10,
      training = True,
      validating = False,
      accelerator = CPUAccelerator,
      training_step_has_dataloader_iter = False,
      train_dataloader = Some \<lparr>sampler_has_set_epoch = False\<rparr>,
      should_reload_train_dl = False\<rparr>"

definition example_state :: "nat state" where
  "example_state =
     \<lparr>loop = \<lparr>max_epochs = 5,
              min_epochs = 2,
              epoch_loop = example_epoch_loop,
              epoch_progress = \<lparr>current = \<lparr>ready = 1, started = 1, processed = 1, completed = 1\<rparr>\<rparr>,
              is_fresh_start_epoch = False,
              outputs = [],
              data_fetcher = Some \<lparr>fetcher_kind = DataFetcher, prefetch_batches_arg = 0\<rparr>,
              restarting_flag = False\<rparr>,
      trainer = example_trainer,
      environ = Map.empty\<rparr>"

text \<open>An epoch of 10 steps that returns one output.\<close>

definition example_epoch_run :: "epoch_loop_state \<Rightarrow> nat list \<times> epoch_loop_state" where
  "example_epoch_run el =
     ([7], el\<lparr>el_global_step := el_global_step el + 10,
              el_batches_that_stepped := el_batches_that_stepped el + 10\<rparr>)"

text \<open>A model that does not override \<^verbatim>\<open>training_epoch_end\<close>, and one whose hook returns a value.\<close>

definition plain_env :: "nat epoch_end_env" where
  "plain_env = \<lparr>training_epoch_end_overridden = False,
                training_epoch_end_returns = None,
                num_ready_batches_reached = True\<rparr>"

definition returning_env :: "nat epoch_end_env" where
  "returning_env = \<lparr>training_epoch_end_overridden = True,
                    training_epoch_end_returns = Some 0,
                    num_ready_batches_reached = True\<rparr>"

text \<open>The state the first stop check leaves behind, and the state after the epoch that follows it.\<close>

definition example_after_check :: "nat state" where
  "example_after_check = state_of (done_prop example_state)"

definition example_after_epoch :: "nat state" where
  "example_after_epoch =
     state_of (run_stmt (loop_iteration example_epoch_run plain_env) example_after_check)"

text \<open>A run interrupted during its third epoch, before the end of that epoch was recorded.\<close>

definition interrupted_state :: "nat state" where
  "interrupted_state =
     example_state\<lparr>loop := (loop example_state)
       \<lparr>epoch_progress := \<lparr>current = \<lparr>ready = 3, started = 3, processed = 3, completed = 2\<rparr>\<rparr>\<rparr>\<rparr>"

section \<open>Executing statements\<close>

text \<open>One equation for each kind of statement at the head of a sequence.\<close>

lemma exec_call: "exec (call e # ms) (s, tr) = exec ms (s, tr @ [(e, s)])"
  by (simp add: call_def)

lemma exec_call_dep:
  "exec ((\<lambda>c. call (e c) c) # ms) (s, tr) = exec ms (s, tr @ [(e (s, tr), s)])"
  by (simp add: call_def)

lemma exec_assign: "exec (assign f # ms) (s, tr) = exec ms (f s, tr)"
  by (simp add: assign_def)

lemma exec_pass: "exec (pass # ms) c = exec ms c"
  by (simp add: pass_def)

lemma exec_raise: "exec (raise e # ms) c = (Some e, c)"
  by (simp add: raise_def)

lemma exec_head:
  "exec (m # ms) c = (case m c of (None, c') \<Rightarrow> exec ms c' | (Some e, c') \<Rightarrow> (Some e, c'))"
  by simp

lemma exec_append:
  "exec (xs @ ys) c =
     (case exec xs c of (None, c') \<Rightarrow> exec ys c' | (Some e, c') \<Rightarrow> (Some e, c'))"
  by (induction xs arbitrary: c) (auto split: prod.splits option.splits)

lemma exec_nested: "exec (exec xs # ys) c = exec (xs @ ys) c"
  by (simp add: exec_append)

lemma exec_cond:
  "exec ((\<lambda>c. if P c then m c else m' c) # ms) c =
     (if P c then exec (m # ms) c else exec (m' # ms) c)"
  by simp

lemma exec_case_option:
  "exec ((\<lambda>c. case g c of None \<Rightarrow> m c | Some x \<Rightarrow> m' x c) # ms) c =
     (case g c of None \<Rightarrow> exec (m # ms) c | Some x \<Rightarrow> exec (m' x # ms) c)"
  by (simp split: option.splits)

lemma exec_increment_ready:
  "exec (increment_ready # ms) (s, tr) =
     exec ms (map_current (\<lambda>t. t\<lparr>ready := ready t + 1\<rparr>) s,
              tr @ [(ProgressCall ''increment_ready'', s)])"
  by (simp add: increment_ready_def call_def assign_def)

lemma exec_increment_started:
  "exec (increment_started # ms) (s, tr) =
     exec ms (map_current (\<lambda>t. t\<lparr>started := started t + 1\<rparr>) s,
              tr @ [(ProgressCall ''increment_started'', s)])"
  by (simp add: increment_started_def call_def assign_def)

lemma exec_increment_processed:
  "exec (increment_processed # ms) (s, tr) =
     exec ms (map_current (\<lambda>t. t\<lparr>processed := processed t + 1\<rparr>) s,
              tr @ [(ProgressCall ''increment_processed'', s)])"
  by (simp add: increment_processed_def call_def assign_def)

lemma exec_increment_completed:
  "exec (increment_completed # ms) (s, tr) =
     exec ms (map_current (\<lambda>t. t\<lparr>completed := completed t + 1\<rparr>) s,
              tr @ [(ProgressCall ''increment_completed'', s)])"
  by (simp add: increment_completed_def call_def assign_def)

lemma exec_results_to:
  "exec (results_to # ms) (s, tr) =
     (if training (trainer s) \<or> validating (trainer s)
      then exec ms (s, tr @ [(ResultsTo, s)])
      else (Some (RuntimeError ''`FitLoop._results` property isn't defined. Accessed outside of scope''),
            (s, tr)))"
  by (simp add: results_to_def call_def raise_def)

lemmas exec_steps =
  exec_call exec_call_dep exec_assign exec_pass exec_raise exec_cond exec_case_option exec_nested
  exec_increment_ready exec_increment_started exec_increment_processed exec_increment_completed

lemma hook_targets_Nil [simp]: "hook_targets name [] = []"
  by (simp add: hook_targets_def)

lemma hook_targets_Cons [simp]:
  "hook_targets name ((e, s) # tr) =
     (case e of CallHook t n \<Rightarrow> if n = name then [t] else [] | _ \<Rightarrow> []) @ hook_targets name tr"
  by (simp add: hook_targets_def)

lemma hook_targets_append [simp]:
  "hook_targets name (xs @ ys) = hook_targets name xs @ hook_targets name ys"
  by (simp add: hook_targets_def)

section \<open>The stop condition\<close>

lemma met_min_epochs_iff:
  "met_min_epochs s \<longleftrightarrow>
     min_epochs (loop s) = 0
     \<or> processed (current (epoch_progress (loop s))) \<ge> min_epochs (loop s)"
  by (simp add: met_min_epochs_def truthy_int_def)

lemma met_min_steps_iff:
  "met_min_steps s \<longleftrightarrow>
     min_steps s = None \<or> min_steps s = Some 0
     \<or> (\<exists>m. min_steps s = Some m \<and> el_global_step (epoch_loop (loop s)) \<ge> m)"
  by (auto simp: met_min_steps_def truthy_int_def split: option.splits)

lemma done_prop_result:
  "fst (done_prop s) \<longleftrightarrow>
     is_max_limit_reached (el_global_step (epoch_loop (loop s))) (max_steps s)
     \<or> is_max_limit_reached (processed (current (epoch_progress (loop s)))) (max_epochs (loop s))
     \<or> (should_stop (trainer s) \<and> met_min_epochs s \<and> met_min_steps s)
     \<or> num_training_batches (trainer s) = Batches 0"
  by (auto simp: done_prop_def Let_def set_should_stop_def)

lemma done_prop_state:
  "state_of (done_prop s)
     = set_should_stop (should_stop (trainer s) \<and> met_min_epochs s \<and> met_min_steps s) s"
  by (cases "met_min_epochs s \<and> met_min_steps s")
     (auto simp add: done_prop_def Let_def state_of_def)

text \<open>
  C1: \<^verbatim>\<open>done\<close> returns true exactly when the step limit is set and reached, or the epoch
  limit is set and reached (counted in processed epochs), or a stop was requested and both
  minimums are met, or there are no training batches.
\<close>

theorem done_decides:
  "fst (done_prop s) \<longleftrightarrow>
     (max_steps s \<noteq> - 1 \<and> el_global_step (epoch_loop (loop s)) \<ge> max_steps s)
   \<or> (max_epochs (loop s) \<noteq> - 1
        \<and> processed (current (epoch_progress (loop s))) \<ge> max_epochs (loop s))
   \<or> (should_stop (trainer s)
        \<and> (min_epochs (loop s) = 0
             \<or> processed (current (epoch_progress (loop s))) \<ge> min_epochs (loop s))
        \<and> (min_steps s = None \<or> min_steps s = Some 0
             \<or> (\<exists>m. min_steps s = Some m \<and> el_global_step (epoch_loop (loop s)) \<ge> m)))
   \<or> num_training_batches (trainer s) = Batches 0"
  using done_prop_result [of s]
  unfolding is_max_limit_reached_def met_min_epochs_iff met_min_steps_iff .

theorem done_decides_witness:
  "fst (done_prop (example_state\<lparr>trainer := example_trainer\<lparr>num_training_batches := Batches 0\<rparr>\<rparr>))
   \<and> \<not> fst (done_prop (example_state\<lparr>trainer := example_trainer\<lparr>should_stop := False\<rparr>\<rparr>))"
  using done_decides [of "example_state\<lparr>trainer := example_trainer\<lparr>num_training_batches := Batches 0\<rparr>\<rparr>"]
        done_decides [of "example_state\<lparr>trainer := example_trainer\<lparr>should_stop := False\<rparr>\<rparr>"]
  by (simp add: example_state_def example_trainer_def example_epoch_loop_def max_steps_def
        min_steps_def)

section \<open>Restarting\<close>

text \<open>
  C4: the setter of \<^verbatim>\<open>restarting\<close> moves \<open>completed\<close> up to \<open>processed\<close> exactly when one of
  \<open>ready\<close>, \<open>started\<close>, \<open>processed\<close> differs from \<open>completed\<close>, leaves the other three
  counters alone, and stores the flag it was given only in that case; when the three
  already equal \<open>completed\<close> the stored flag is false.
\<close>

theorem restarting_setter_reconciles:
  "let cur = current (epoch_progress (loop s));
       cur' = current (epoch_progress (loop (restarting_setter b s)));
       interrupted = (ready cur \<noteq> completed cur \<or> started cur \<noteq> completed cur
                      \<or> processed cur \<noteq> completed cur)
   in completed cur' = (if interrupted then processed cur else completed cur)
      \<and> ready cur' = ready cur \<and> started cur' = started cur \<and> processed cur' = processed cur
      \<and> restarting_flag (loop (restarting_setter b s)) = (b \<and> interrupted)"
  by (simp add: restarting_setter_def Let_def map_current_def Loop_restarting_fset_def)

theorem restarting_setter_reconciles_witness:
  "completed (current (epoch_progress (loop (restarting_setter True interrupted_state)))) = 3
   \<and> restarting_flag (loop (restarting_setter True interrupted_state))
   \<and> completed (current (epoch_progress (loop (restarting_setter True example_state)))) = 1
   \<and> \<not> restarting_flag (loop (restarting_setter True example_state))"
  using restarting_setter_reconciles [of interrupted_state True]
        restarting_setter_reconciles [of example_state True]
  by (simp add: Let_def interrupted_state_def example_state_def)

text \<open>
  With \<open>ready = started = processed = 3\<close> and \<open>completed = 2\<close>, setting \<^verbatim>\<open>restarting\<close> to true
  brings \<open>completed\<close> to 3 but stores the flag as true: the interruption is treated as a
  restart, not suppressed.
\<close>

theorem restart_after_interruption_counterexample:
  "ready (current (epoch_progress (loop interrupted_state))) = 3
   \<and> started (current (epoch_progress (loop interrupted_state))) = 3
   \<and> processed (current (epoch_progress (loop interrupted_state))) = 3
   \<and> completed (current (epoch_progress (loop interrupted_state))) = 3 - 1
   \<and> \<not> (completed (current (epoch_progress (loop (restarting_setter True interrupted_state)))) = 3
          \<and> restarting_flag (loop (restarting_setter True interrupted_state)) = False)"
  by (simp add: interrupted_state_def example_state_def restarting_setter_def Let_def
        map_current_def Loop_restarting_fset_def)

text \<open>
  C3 (amended): if \<open>ready = started = processed = n\<close> and \<open>completed = n - 1\<close>, the setter of
  \<^verbatim>\<open>restarting\<close> yields \<open>completed = n\<close> and stores the flag exactly as given, so that a
  restart requested with true is kept as a restart.
\<close>

theorem restart_after_interruption:
  assumes "ready (current (epoch_progress (loop s))) = n"
      and "started (current (epoch_progress (loop s))) = n"
      and "processed (current (epoch_progress (loop s))) = n"
      and "completed (current (epoch_progress (loop s))) = n - 1"
  shows "completed (current (epoch_progress (loop (restarting_setter b s)))) = n
         \<and> restarting_flag (loop (restarting_setter b s)) = b"
  using assms
  by (simp add: restarting_setter_def Let_def map_current_def Loop_restarting_fset_def)

theorem restart_after_interruption_witness:
  "completed (current (epoch_progress (loop (restarting_setter True interrupted_state)))) = 3
   \<and> restarting_flag (loop (restarting_setter True interrupted_state)) = True"
proof -
  have "ready (current (epoch_progress (loop interrupted_state))) = 3"
       "started (current (epoch_progress (loop interrupted_state))) = 3"
       "processed (current (epoch_progress (loop interrupted_state))) = 3"
       "completed (current (epoch_progress (loop interrupted_state))) = 3 - 1"
    by (simp_all add: interrupted_state_def)
  from restart_after_interruption [OF this, of True] show ?thesis .
qed

section \<open>Validation of the limits\<close>

text \<open>
  C6: constructing the loop with \<open>max_epochs < -1\<close> raises a misconfiguration error and
  yields no loop; setting \<open>max_steps\<close> to an integer below -1 raises one and leaves the
  state, and with it the stored \<open>max_steps\<close>, as it was; every \<open>max_epochs \<ge> -1\<close> and
  \<open>max_steps \<ge> -1\<close> is accepted and stored.
\<close>

theorem limits_validated:
  "(max_e < - 1 \<longrightarrow>
      (init_fit_loop el min_e max_e :: error + 'o fit_loop)
        = Inl (MisconfigurationException (MaxEpochsInvalid max_e)))
   \<and> (- 1 \<le> max_e \<longrightarrow>
      (\<exists>l :: 'o fit_loop. init_fit_loop el min_e max_e = Inr l
           \<and> max_epochs l = max_e \<and> min_epochs l = min_e))
   \<and> (n < - 1 \<longrightarrow>
      run_stmt (max_steps_setter (Some n)) s
        = (Some (MisconfigurationException (MaxStepsInvalid n)), s, []))
   \<and> (- 1 \<le> n \<longrightarrow>
      status_of (run_stmt (max_steps_setter (Some n)) s) = None
      \<and> max_steps (state_of (run_stmt (max_steps_setter (Some n)) s)) = n)"
  by (simp add: init_fit_loop_def run_stmt_def max_steps_setter_def raise_def assign_def
        status_of_def state_of_def max_steps_def set_el_max_steps_def)

theorem limits_validated_witness:
  "(init_fit_loop example_epoch_loop 0 (- 2) :: error + nat fit_loop)
      = Inl (MisconfigurationException (MaxEpochsInvalid (- 2)))
   \<and> (\<exists>l :: nat fit_loop. init_fit_loop example_epoch_loop 0 (- 1) = Inr l
         \<and> max_epochs l = - 1 \<and> min_epochs l = 0)
   \<and> run_stmt (max_steps_setter (Some (- 2))) example_state
        = (Some (MisconfigurationException (MaxStepsInvalid (- 2))), example_state, [])
   \<and> max_steps (state_of (run_stmt (max_steps_setter (Some 100)) example_state)) = 100"
  using limits_validated [of "- 2" example_epoch_loop 0 "- 2" example_state, where ?'o = nat]
        limits_validated [of "- 1" example_epoch_loop 0 100 example_state, where ?'o = nat]
  by simp

text \<open>
  C10: setting \<open>max_steps\<close> to \<^verbatim>\<open>None\<close> does not raise; it emits one deprecation warning and
  stores -1, which a later read returns. An integer is rejected exactly when it is below -1.
\<close>

theorem max_steps_none_is_unbounded:
  "status_of (run_stmt (max_steps_setter None) s) = None
   \<and> max_steps (state_of (run_stmt (max_steps_setter None) s)) = - 1
   \<and> state_of (run_stmt (max_steps_setter None) s) = set_el_max_steps (- 1) s
   \<and> map fst (trace_of (run_stmt (max_steps_setter None) s))
       = [RankZeroDeprecation ''Setting `max_steps = None` is deprecated in v1.5 and will no longer be supported in v1.7. Use `max_steps = -1` instead.'']
   \<and> (status_of (run_stmt (max_steps_setter (Some n)) s) \<noteq> None \<longleftrightarrow> n < - 1)"
  by (simp add: run_stmt_def max_steps_setter_def raise_def assign_def call_def
        status_of_def state_of_def trace_of_def max_steps_def set_el_max_steps_def)

theorem max_steps_none_is_unbounded_witness:
  "status_of (run_stmt (max_steps_setter None) example_state) = None
   \<and> max_steps (state_of (run_stmt (max_steps_setter None) example_state)) = - 1
   \<and> status_of (run_stmt (max_steps_setter (Some (- 1))) example_state) = None
   \<and> status_of (run_stmt (max_steps_setter (Some (- 2))) example_state) \<noteq> None"
  using max_steps_none_is_unbounded [of example_state "- 1"]
        max_steps_none_is_unbounded [of example_state "- 2"]
  by simp

section \<open>Choosing the data fetcher\<close>

lemma inter_batch_parallelism_iff:
  "inter_batch_parallelism s \<longleftrightarrow> environ s ''PL_INTER_BATCH_PARALLELISM'' = Some ''1''"
  by (simp add: inter_batch_parallelism_def os_getenv_def split: option.splits)

text \<open>
  C5: the fetcher is decided by three capabilities, in this order. A \<^verbatim>\<open>dataloader_iter\<close>
  parameter of \<^verbatim>\<open>training_step\<close> gives the iterator fetcher and one warning; otherwise,
  with inter-batch parallelism requested, an accelerator that is not a GPU accelerator
  gives a misconfiguration error and a GPU accelerator gives the parallel fetcher;
  otherwise the default fetcher. Nothing but the warning is recorded and the state is
  unchanged.
\<close>

theorem fetcher_selection:
  "(training_step_has_dataloader_iter (trainer s) \<longrightarrow>
      select_data_fetcher (s, tr) =
        (Inr DataLoaderIterDataFetcher,
         (s, tr @ [(RankZeroWarn ''Found `dataloader_iter` argument in the `training_step`. Note that the support for this signature is experimental and the behavior is subject to change.'', s)])))
   \<and> (\<not> training_step_has_dataloader_iter (trainer s)
       \<and> environ s ''PL_INTER_BATCH_PARALLELISM'' = Some ''1''
       \<and> accelerator (trainer s) \<noteq> GPUAccelerator \<longrightarrow>
      select_data_fetcher (s, tr)
        = (Inl (MisconfigurationException InterBatchParallelismNeedsGPU), (s, tr)))
   \<and> (\<not> training_step_has_dataloader_iter (trainer s)
       \<and> environ s ''PL_INTER_BATCH_PARALLELISM'' = Some ''1''
       \<and> accelerator (trainer s) = GPUAccelerator \<longrightarrow>
      select_data_fetcher (s, tr) = (Inr InterBatchParallelDataFetcher, (s, tr)))
   \<and> (\<not> training_step_has_dataloader_iter (trainer s)
       \<and> environ s ''PL_INTER_BATCH_PARALLELISM'' \<noteq> Some ''1'' \<longrightarrow>
      select_data_fetcher (s, tr) = (Inr DataFetcher, (s, tr)))"
  by (cases "accelerator (trainer s)")
     (simp_all add: select_data_fetcher_def inter_batch_parallelism_iff call_def)

theorem fetcher_selection_witness:
  "fst (select_data_fetcher
          (example_state\<lparr>trainer := example_trainer\<lparr>training_step_has_dataloader_iter := True\<rparr>\<rparr>, []))
      = Inr DataLoaderIterDataFetcher
   \<and> fst (select_data_fetcher
          (example_state\<lparr>environ := [''PL_INTER_BATCH_PARALLELISM'' \<mapsto> ''1'']\<rparr>, []))
      = Inl (MisconfigurationException InterBatchParallelismNeedsGPU)
   \<and> fst (select_data_fetcher
          (example_state\<lparr>environ := [''PL_INTER_BATCH_PARALLELISM'' \<mapsto> ''1''],
                         trainer := example_trainer\<lparr>accelerator := GPUAccelerator\<rparr>\<rparr>, []))
      = Inr InterBatchParallelDataFetcher
   \<and> fst (select_data_fetcher (example_state, [])) = Inr DataFetcher"
  using fetcher_selection [of "example_state\<lparr>trainer := example_trainer\<lparr>training_step_has_dataloader_iter := True\<rparr>\<rparr>" "[]"]
        fetcher_selection [of "example_state\<lparr>environ := [''PL_INTER_BATCH_PARALLELISM'' \<mapsto> ''1'']\<rparr>" "[]"]
        fetcher_selection [of "example_state\<lparr>environ := [''PL_INTER_BATCH_PARALLELISM'' \<mapsto> ''1''],
                                             trainer := example_trainer\<lparr>accelerator := GPUAccelerator\<rparr>\<rparr>" "[]"]
        fetcher_selection [of example_state "[]"]
  by (simp add: example_state_def example_trainer_def)

section \<open>Run start and run end\<close>

text \<open>Choosing the fetcher leaves the state alone and calls no hook.\<close>

lemma select_data_fetcher_shape:
  "\<exists>x w. select_data_fetcher (s, tr) = (x, (s, tr @ w)) \<and> hook_targets name w = []"
  by (simp add: select_data_fetcher_def call_def hook_targets_def)

lemma on_run_start_hooks:
  "hook_targets ''on_train_start'' (trace_of (run_stmt (on_run_start reset_dl) s))
     = (if status_of (run_stmt (on_run_start reset_dl) s) = None
        then [Callbacks, LightningModule, Strategy] else [])"
proof -
  define s1 where "s1 = s\<lparr>trainer := reset_dl (trainer s)\<rparr>"
  define tr1 where "tr1 = [(TrainerCall ''reset_train_val_dataloaders'', s)]"
  obtain x w where sel: "select_data_fetcher (s1, tr1) = (x, (s1, tr1 @ w))"
    and w: "hook_targets ''on_train_start'' w = []"
    using select_data_fetcher_shape by blast
  have start: "run_stmt (on_run_start reset_dl) s =
      (case x of
         Inl e \<Rightarrow> (Some e, s1, tr1 @ w)
       | Inr cls \<Rightarrow>
           exec [assign (\<lambda>s. s\<lparr>loop := (loop s)\<lparr>is_fresh_start_epoch := True\<rparr>\<rparr>),
                 results_to,
                 call (CallHook Callbacks ''on_train_start''),
                 call (CallHook LightningModule ''on_train_start''),
                 call (CallHook Strategy ''on_train_start'')] (set_data_fetcher cls s1, tr1 @ w))"
    unfolding run_stmt_def on_run_start_def exec_call exec_assign append_Nil
      s1_def [symmetric] tr1_def [symmetric]
    by (subst exec_head)
       (simp add: sel raise_def assign_def exec_assign split: sum.splits del: exec.simps(2))
  have tr1: "hook_targets ''on_train_start'' tr1 = []"
    by (simp add: tr1_def)
  show ?thesis
  proof (cases x)
    case (Inl e)
    then show ?thesis
      by (simp add: start trace_of_def status_of_def w tr1)
  next
    case (Inr cls)
    then show ?thesis
      by (simp add: start exec_call exec_assign exec_results_to trace_of_def status_of_def w tr1
            del: exec.simps(2))
  qed
qed

lemma on_run_end_result:
  "run_stmt on_run_end s =
     (None, s, [(LogDetail ''train run ended'', s),
                (CallHook Callbacks ''on_train_end'', s),
                (CallHook LightningModule ''on_train_end'', s),
                (CallHook Strategy ''on_train_end'', s)])"
  by (simp add: run_stmt_def on_run_end_def exec_call del: exec.simps(2))

text \<open>
  C8: when \<^verbatim>\<open>on_run_start\<close> returns, the \<^verbatim>\<open>on_train_start\<close> hooks have been called once each
  in the order callbacks, model, strategy, and when it raises none of them has been called;
  \<^verbatim>\<open>on_run_end\<close> always returns and calls the \<^verbatim>\<open>on_train_end\<close> hooks once each in that same
  order. No other order of these calls occurs.
\<close>

theorem train_hooks_order:
  "hook_targets ''on_train_start'' (trace_of (run_stmt (on_run_start reset_dl) s))
     = (if status_of (run_stmt (on_run_start reset_dl) s) = None
        then [Callbacks, LightningModule, Strategy] else [])
   \<and> status_of (run_stmt on_run_end s) = None
   \<and> hook_targets ''on_train_end'' (trace_of (run_stmt on_run_end s))
       = [Callbacks, LightningModule, Strategy]"
proof -
  have "hook_targets ''on_train_end'' (trace_of (run_stmt on_run_end s))
          = [Callbacks, LightningModule, Strategy]"
    by (simp add: on_run_end_result trace_of_def)
  moreover have "status_of (run_stmt on_run_end s) = None"
    by (simp add: on_run_end_result status_of_def)
  ultimately show ?thesis
    using on_run_start_hooks [of reset_dl s] by simp
qed

theorem train_hooks_order_witness:
  "status_of (run_stmt (on_run_start (\<lambda>t. t)) example_state) = None
   \<and> hook_targets ''on_train_start'' (trace_of (run_stmt (on_run_start (\<lambda>t. t)) example_state))
       = [Callbacks, LightningModule, Strategy]
   \<and> hook_targets ''on_train_end'' (trace_of (run_stmt on_run_end example_state))
       = [Callbacks, LightningModule, Strategy]"
proof -
  have "status_of (run_stmt (on_run_start (\<lambda>t. t)) example_state) = None"
    by (simp add: run_stmt_def on_run_start_def exec_call exec_assign select_data_fetcher_def
          inter_batch_parallelism_def os_getenv_def results_to_def call_def assign_def status_of_def
          example_state_def example_trainer_def set_data_fetcher_def)
  with train_hooks_order [of "\<lambda>t. t" example_state] show ?thesis by simp
qed

section \<open>The end of an epoch\<close>

lemma add_batches_back: "add_batches_that_stepped 1 (add_batches_that_stepped (- 1) s) = s"
  by (simp add: add_batches_that_stepped_def)

text \<open>The run of \<^verbatim>\<open>on_advance_end\<close> in full: when the hook returns a value, and otherwise.\<close>

lemma on_advance_end_raises:
  assumes "training_epoch_end_overridden env" "outputs (loop s) \<noteq> []"
    "training_epoch_end_returns env \<noteq> None"
  shows "run_stmt (on_advance_end env) s =
    (Some (MisconfigurationException TrainingEpochEndReturnsValue), s,
     [(LoggerConnector ''epoch_end_reached'', s),
      (EpochLoopCall ''_prepare_outputs_training_epoch_end'', s),
      (CallHook LightningModule ''training_epoch_end'', s)])"
  using assms
  by (simp add: run_stmt_def on_advance_end_def exec_steps del: exec.simps(2))

lemma on_advance_end_returns:
  assumes "\<not> (training_epoch_end_overridden env \<and> outputs (loop s) \<noteq> []
              \<and> training_epoch_end_returns env \<noteq> None)"
  shows "run_stmt (on_advance_end env) s =
    (None, epoch_end_completed s,
     [(LoggerConnector ''epoch_end_reached'', s)] @
     (if training_epoch_end_overridden env \<and> outputs (loop s) \<noteq> []
      then [(EpochLoopCall ''_prepare_outputs_training_epoch_end'', s),
            (CallHook LightningModule ''training_epoch_end'', s)]
      else []) @
     [(ProgressCall ''increment_processed'', epoch_end_cleared s),
      (CallHook Callbacks ''on_train_epoch_end'', epoch_end_processed s),
      (CallHook LightningModule ''on_train_epoch_end'', epoch_end_processed s),
      (CallHook Callbacks ''on_epoch_end'', epoch_end_processed s),
      (CallHook LightningModule ''on_epoch_end'', epoch_end_processed s),
      (LoggerConnector ''on_epoch_end'', epoch_end_processed s),
      (EpochLoopCall ''_num_ready_batches_reached'', epoch_end_processed s)] @
     (if num_ready_batches_reached env
      then [(EpochLoopCall ''update_lr_schedulers'', epoch_end_processed s)]
      else []) @
     [(ProgressCall ''increment_completed'', epoch_end_processed s),
      (LoggerConnector ''update_train_epoch_metrics'',
         add_batches_that_stepped (- 1) (epoch_end_completed s)),
      (TrainerCall ''_exit_gracefully_on_signal'', epoch_end_completed s)])"
  using assms
  by (auto simp add: run_stmt_def on_advance_end_def exec_steps add_batches_back
      epoch_end_cleared_def epoch_end_processed_def epoch_end_completed_def
      simp del: exec.simps(2))

lemma status_on_advance_end:
  "status_of (run_stmt (on_advance_end env) s) =
     (if training_epoch_end_overridden env \<and> outputs (loop s) \<noteq> []
         \<and> training_epoch_end_returns env \<noteq> None
      then Some (MisconfigurationException TrainingEpochEndReturnsValue) else None)"
  using on_advance_end_raises [of env s] on_advance_end_returns [of env s]
  by (auto simp: status_of_def)

text \<open>
  C7: in \<^verbatim>\<open>on_advance_end\<close> the hook \<^verbatim>\<open>training_epoch_end\<close> is called, once and on the model,
  exactly when the model overrides it and the recorded outputs are not empty; if the hook
  so called returns a value, a misconfiguration error is raised; and when no error is
  raised, \<^verbatim>\<open>increment_processed\<close> is called once, in a state whose outputs are already empty,
  and the outputs are empty at the end.
\<close>

theorem epoch_end_hook_and_outputs:
  "hook_targets ''training_epoch_end'' (trace_of (run_stmt (on_advance_end env) s))
       = (if training_epoch_end_overridden env \<and> outputs (loop s) \<noteq> []
          then [LightningModule] else [])
   \<and> (training_epoch_end_overridden env \<and> outputs (loop s) \<noteq> []
        \<and> training_epoch_end_returns env \<noteq> None
      \<longrightarrow> status_of (run_stmt (on_advance_end env) s)
            = Some (MisconfigurationException TrainingEpochEndReturnsValue))
   \<and> (status_of (run_stmt (on_advance_end env) s) = None
      \<longrightarrow> map (\<lambda>x. outputs (loop x))
               (observed_at (ProgressCall ''increment_processed'')
                  (trace_of (run_stmt (on_advance_end env) s))) = [[]]
          \<and> outputs (loop (state_of (run_stmt (on_advance_end env) s))) = [])"
proof (cases "training_epoch_end_overridden env \<and> outputs (loop s) \<noteq> []
              \<and> training_epoch_end_returns env \<noteq> None")
  case True
  then show ?thesis
    using on_advance_end_raises [of env s]
    by (simp add: status_of_def trace_of_def)
next
  case False
  have cleared: "outputs (loop (epoch_end_cleared s)) = []"
    "outputs (loop (epoch_end_completed s)) = []"
    by (simp_all add: epoch_end_cleared_def epoch_end_processed_def epoch_end_completed_def
          set_outputs_def map_current_def)
  show ?thesis
    unfolding on_advance_end_returns [OF False]
    using False
    by (simp add: status_of_def trace_of_def state_of_def observed_at_def cleared)
qed

theorem epoch_end_hook_and_outputs_witness:
  "status_of (run_stmt (on_advance_end returning_env) (set_outputs [7] example_state))
      = Some (MisconfigurationException TrainingEpochEndReturnsValue)
   \<and> hook_targets ''training_epoch_end''
        (trace_of (run_stmt (on_advance_end returning_env) (set_outputs [7] example_state)))
      = [LightningModule]
   \<and> hook_targets ''training_epoch_end''
        (trace_of (run_stmt (on_advance_end plain_env) (set_outputs [7] example_state))) = []
   \<and> outputs (loop (state_of (run_stmt (on_advance_end plain_env) (set_outputs [7] example_state))))
      = []"
proof -
  have ok: "status_of (run_stmt (on_advance_end plain_env) (set_outputs [7] example_state)) = None"
    by (simp add: status_on_advance_end plain_env_def)
  show ?thesis
    using epoch_end_hook_and_outputs [of returning_env "set_outputs [7] example_state"]
          epoch_end_hook_and_outputs [of plain_env "set_outputs [7] example_state"] ok
    by (simp add: returning_env_def plain_env_def set_outputs_def)
qed

text \<open>
  C9: when \<^verbatim>\<open>on_advance_end\<close> returns, its last three calls are \<^verbatim>\<open>increment_completed\<close>,
  \<^verbatim>\<open>update_train_epoch_metrics\<close> and \<^verbatim>\<open>_exit_gracefully_on_signal\<close>; the metric update sees
  the step counter one below the value the other two see, which is the value on entry; the
  state the metric update sees differs from the final state in that counter only; and the
  counter ends where it started.
\<close>

theorem step_counter_correction:
  assumes "status_of (run_stmt (on_advance_end env) s) = None"
  shows "drop (length (trace_of (run_stmt (on_advance_end env) s)) - 3)
              (stepped_seen (trace_of (run_stmt (on_advance_end env) s)))
           = [(ProgressCall ''increment_completed'',
                 el_batches_that_stepped (epoch_loop (loop s))),
              (LoggerConnector ''update_train_epoch_metrics'',
                 el_batches_that_stepped (epoch_loop (loop s)) - 1),
              (TrainerCall ''_exit_gracefully_on_signal'',
                 el_batches_that_stepped (epoch_loop (loop s)))]
       \<and> observed_at (LoggerConnector ''update_train_epoch_metrics'')
            (trace_of (run_stmt (on_advance_end env) s))
           = [add_batches_that_stepped (- 1) (state_of (run_stmt (on_advance_end env) s))]
       \<and> observed_at (TrainerCall ''_exit_gracefully_on_signal'')
            (trace_of (run_stmt (on_advance_end env) s))
           = [state_of (run_stmt (on_advance_end env) s)]
       \<and> el_batches_that_stepped (epoch_loop (loop (state_of (run_stmt (on_advance_end env) s))))
           = el_batches_that_stepped (epoch_loop (loop s))"
proof -
  have ok: "\<not> (training_epoch_end_overridden env \<and> outputs (loop s) \<noteq> []
               \<and> training_epoch_end_returns env \<noteq> None)"
    using assms by (simp add: status_on_advance_end split: if_splits)
  have stepped:
    "el_batches_that_stepped (epoch_loop (loop (epoch_end_processed s)))
       = el_batches_that_stepped (epoch_loop (loop s))"
    "el_batches_that_stepped (epoch_loop (loop (epoch_end_completed s)))
       = el_batches_that_stepped (epoch_loop (loop s))"
    by (simp_all add: epoch_end_cleared_def epoch_end_processed_def epoch_end_completed_def
          set_outputs_def map_current_def)
  show ?thesis
    unfolding on_advance_end_returns [OF ok]
    by (simp add: trace_of_def state_of_def stepped_seen_def observed_at_def stepped
          add_batches_that_stepped_def)
qed

theorem step_counter_correction_witness:
  "status_of (run_stmt (on_advance_end plain_env) example_state) = None
   \<and> drop (length (trace_of (run_stmt (on_advance_end plain_env) example_state)) - 3)
          (stepped_seen (trace_of (run_stmt (on_advance_end plain_env) example_state)))
       = [(ProgressCall ''increment_completed'', 10),
          (LoggerConnector ''update_train_epoch_metrics'', 9),
          (TrainerCall ''_exit_gracefully_on_signal'', 10)]
   \<and> el_batches_that_stepped
        (epoch_loop (loop (state_of (run_stmt (on_advance_end plain_env) example_state)))) = 10"
proof -
  have ok: "status_of (run_stmt (on_advance_end plain_env) example_state) = None"
    by (simp add: status_on_advance_end plain_env_def)
  have "el_batches_that_stepped (epoch_loop (loop example_state)) = 10"
    by (simp add: example_state_def example_epoch_loop_def)
  with step_counter_correction [OF ok] ok show ?thesis by simp
qed

section \<open>A stop requested before the minimums are met\<close>

text \<open>The example run: the first check, and the epoch after it.\<close>

lemma example_after_check_eq:
  "example_after_check = example_state\<lparr>trainer := example_trainer\<lparr>should_stop := False\<rparr>\<rparr>"
  by (simp add: example_after_check_def state_of_def done_prop_def Let_def set_should_stop_def
        met_min_epochs_def truthy_int_def example_state_def example_trainer_def)

lemma example_iteration:
  "status_of (run_stmt (loop_iteration example_epoch_run plain_env) example_after_check) = None
   \<and> example_after_epoch =
       \<lparr>loop = \<lparr>max_epochs = 5,
                min_epochs = 2,
                epoch_loop = \<lparr>el_global_step = 20, el_min_steps = None, el_max_steps = - 1,
                               el_batches_that_stepped = 20\<rparr>,
                epoch_progress =
                  \<lparr>current = \<lparr>ready = 2, started = 2, processed = 2, completed = 2\<rparr>\<rparr>,
                is_fresh_start_epoch = False,
                outputs = [],
                data_fetcher = Some \<lparr>fetcher_kind = DataFetcher, prefetch_batches_arg = 0\<rparr>,
                restarting_flag = False\<rparr>,
        trainer = example_trainer\<lparr>should_stop := False\<rparr>,
        environ = Map.empty\<rparr>"
  unfolding example_after_epoch_def
  by (simp add: example_after_check_eq run_stmt_def loop_iteration_def on_advance_start_def
        advance_def on_advance_end_def exec_steps status_of_def state_of_def
        example_state_def example_trainer_def plain_env_def example_epoch_run_def
        example_epoch_loop_def set_outputs_def map_current_def add_batches_that_stepped_def
        del: exec.simps(2))

text \<open>
  A stop is requested after one epoch of a run that must last two. The check suppresses it
  and clears the flag. The next epoch runs to its end, after which both minimums are met,
  and the check that follows does not stop: nothing remembers the request.
\<close>

theorem early_stop_request_counterexample:
  "should_stop (trainer example_state)
   \<and> \<not> met_min_epochs example_state
   \<and> \<not> fst (done_prop example_state)
   \<and> status_of (run_stmt (loop_iteration example_epoch_run plain_env) example_after_check) = None
   \<and> met_min_epochs example_after_epoch
   \<and> met_min_steps example_after_epoch
   \<and> \<not> fst (done_prop example_after_epoch)"
proof -
  have first: "should_stop (trainer example_state) \<and> \<not> met_min_epochs example_state
      \<and> \<not> fst (done_prop example_state)"
    by (simp add: done_prop_def Let_def set_should_stop_def is_max_limit_reached_def max_steps_def
          met_min_epochs_def truthy_int_def example_state_def example_trainer_def
          example_epoch_loop_def)
  have later: "met_min_epochs example_after_epoch \<and> met_min_steps example_after_epoch
      \<and> \<not> fst (done_prop example_after_epoch)"
    by (simp add: example_iteration done_prop_def Let_def set_should_stop_def
          is_max_limit_reached_def max_steps_def min_steps_def met_min_epochs_def
          met_min_steps_def truthy_int_def example_trainer_def)
  from first later example_iteration show ?thesis by simp
qed

text \<open>
  C2 (amended): when \<^verbatim>\<open>trainer.should_stop\<close> is true on entry to \<^verbatim>\<open>done\<close> and both minimums
  are met (\<open>min_epochs\<close> is 0 or reached by the processed epochs; \<open>min_steps\<close> is unset, 0 or
  reached by the global step), the result is true and the flag stays true; when it is true
  on entry and a minimum is not met, the flag is cleared and the result is decided by the
  limits and the batch count alone. A check entered with the flag false leaves it false and
  is decided by the limits and the batch count alone, whatever the minimums: a suppressed
  request stops the run later only if the flag is raised again. The check writes nothing
  but the flag.
\<close>

theorem early_stop_request:
  "(should_stop (trainer s)
      \<and> (min_epochs (loop s) = 0
           \<or> processed (current (epoch_progress (loop s))) \<ge> min_epochs (loop s))
      \<and> (min_steps s = None \<or> min_steps s = Some 0
           \<or> (\<exists>m. min_steps s = Some m \<and> el_global_step (epoch_loop (loop s)) \<ge> m))
      \<longrightarrow> fst (done_prop s) \<and> should_stop (trainer (state_of (done_prop s))))
   \<and> (should_stop (trainer s)
      \<and> \<not> ((min_epochs (loop s) = 0
                \<or> processed (current (epoch_progress (loop s))) \<ge> min_epochs (loop s))
             \<and> (min_steps s = None \<or> min_steps s = Some 0
                \<or> (\<exists>m. min_steps s = Some m \<and> el_global_step (epoch_loop (loop s)) \<ge> m)))
      \<longrightarrow> \<not> should_stop (trainer (state_of (done_prop s)))
          \<and> (fst (done_prop s) \<longleftrightarrow>
                is_max_limit_reached (el_global_step (epoch_loop (loop s))) (max_steps s)
              \<or> is_max_limit_reached (processed (current (epoch_progress (loop s))))
                   (max_epochs (loop s))
              \<or> num_training_batches (trainer s) = Batches 0))
   \<and> (\<not> should_stop (trainer s)
      \<longrightarrow> \<not> should_stop (trainer (state_of (done_prop s)))
          \<and> (fst (done_prop s) \<longleftrightarrow>
                is_max_limit_reached (el_global_step (epoch_loop (loop s))) (max_steps s)
              \<or> is_max_limit_reached (processed (current (epoch_progress (loop s))))
                   (max_epochs (loop s))
              \<or> num_training_batches (trainer s) = Batches 0))
   \<and> state_of (done_prop s) = set_should_stop (should_stop (trainer (state_of (done_prop s)))) s"
proof -
  have flag: "should_stop (trainer (state_of (done_prop s)))
        \<longleftrightarrow> should_stop (trainer s) \<and> met_min_epochs s \<and> met_min_steps s"
    by (simp add: done_prop_state set_should_stop_def)
  show ?thesis
    using done_prop_result [of s] done_prop_state [of s] flag
    unfolding met_min_epochs_iff met_min_steps_iff by auto
qed

theorem early_stop_request_witness:
  "\<not> should_stop (trainer (state_of (done_prop example_state)))
   \<and> \<not> fst (done_prop example_state)
   \<and> \<not> fst (done_prop example_after_epoch)
   \<and> fst (done_prop (set_should_stop True example_after_epoch))
   \<and> should_stop (trainer (state_of (done_prop (set_should_stop True example_after_epoch))))"
  using early_stop_request [of example_state]
        early_stop_request [of example_after_epoch]
        early_stop_request [of "set_should_stop True example_after_epoch"]
  by (simp add: example_iteration set_should_stop_def is_max_limit_reached_def max_steps_def
        min_steps_def example_state_def example_trainer_def example_epoch_loop_def)

end
